theory Spec2Isabelle
  imports Main "HOL-Library.Word"
begin

unbundle bit_operations_syntax

section \<open>Data model of the client (internal/client/networking.go)\<close>

text \<open>
  Byte slices (\<open>[]byte\<close>, \<open>net.IP\<close>, \<open>net.IPMask\<close>) are lists of 8-bit words; Go's
  \<open>nil\<close> slice has length 0 and is the empty list.
\<close>

type_synonym bytes = "8 word list"

text \<open>\<open>errors.New msg\<close> and the errors handed back by the libraries: a message.\<close>

datatype error = Error string

text \<open>
  Modelled from the spec: the type \<open>State\<close> and its constants are declared outside
  networking.go; the spec's data model gives the lifecycle state as one of
  \<open>Active\<close>, \<open>Paused\<close>, \<open>Deregistering\<close>.
\<close>

datatype State = Active | Paused | Deregistering

subsection \<open>Addresses: the parts of Go's \<open>net\<close> package that the client calls\<close>

text \<open>\<open>net.IPNet{IP, Mask}\<close>.\<close>

record IPNet =
  IP :: bytes
  Mask :: bytes

text \<open>\<open>isZeros\<close> of package net.\<close>

definition isZeros :: "bytes \<Rightarrow> bool" where
  "isZeros p = list_all (\<lambda>b. b = 0) p"

text \<open>
  \<open>IP.To4\<close>: a 4-byte address is returned as it is, a 16-byte IPv4-mapped address
  (ten zero bytes, \<open>0xff\<close>, \<open>0xff\<close>) gives its last four bytes, anything else \<open>nil\<close>.
\<close>

definition To4 :: "bytes \<Rightarrow> bytes option" where
  "To4 ip =
     (if length ip = 4 then Some ip
      else if length ip = 16 \<and> isZeros (take 10 ip) \<and> ip ! 10 = 0xff \<and> ip ! 11 = 0xff
        then Some (drop 12 ip)
      else None)"

text \<open>
  \<open>networkNumberAndMask\<close> of package net; the result \<open>nil, nil\<close> is the pair of
  empty lists.
\<close>

definition networkNumberAndMask :: "IPNet \<Rightarrow> bytes \<times> bytes" where
  "networkNumberAndMask n =
     (case (case To4 (IP n) of
              Some ip4 \<Rightarrow> Some ip4
            | None \<Rightarrow> if length (IP n) \<noteq> 16 then None else Some (IP n)) of
        None \<Rightarrow> ([], [])
      | Some ip \<Rightarrow>
          if length (Mask n) = 4 then
            (if length ip \<noteq> 4 then ([], []) else (ip, Mask n))
          else if length (Mask n) = 16 then
            (if length ip = 4 then (ip, drop 12 (Mask n)) else (ip, Mask n))
          else ([], []))"

text \<open>The comparison loop of \<open>IPNet.Contains\<close>, over the three slices in step.\<close>

fun masked_equal :: "bytes \<Rightarrow> bytes \<Rightarrow> bytes \<Rightarrow> bool" where
  "masked_equal (n # nn) (m # mm) (x # xs) =
     (if n AND m \<noteq> x AND m then False else masked_equal nn mm xs)"
| "masked_equal _ _ _ = True"

text \<open>\<open>(*IPNet).Contains\<close>.\<close>

definition Contains :: "IPNet \<Rightarrow> bytes \<Rightarrow> bool" where
  "Contains n ip =
     (case networkNumberAndMask n of
        (nn, m) \<Rightarrow>
          let ip' = (case To4 ip of Some x \<Rightarrow> x | None \<Rightarrow> ip) in
          if length ip' \<noteq> length nn then False else masked_equal nn m ip')"

text \<open>\<open>net.CIDRMask(32, 32)\<close>: four bytes \<open>0xff\<close>.\<close>

definition CIDRMask_32_32 :: bytes where
  "CIDRMask_32_32 = [0xff, 0xff, 0xff, 0xff]"

subsection \<open>Device resolution: \<open>findDevice\<close>\<close>

text \<open>
  \<open>pcap.InterfaceAddress\<close> and \<open>pcap.Interface\<close>, with the fields the code reads.
  \<open>Name\<close> is the device name the operating system gives the interface.
\<close>

record InterfaceAddress =
  addrIP :: bytes
  Netmask :: bytes

record Interface =
  Name :: string
  Addresses :: "InterfaceAddress list"

definition multiple_devices :: error where
  "multiple_devices = Error ''multiple devices on the same subnet. VIP cannot be assigned''"

definition no_device :: error where
  "no_device = Error ''no device on same subnet as VIP. VIP cannot be assigned''"

definition addr_contains :: "bytes \<Rightarrow> InterfaceAddress \<Rightarrow> bool" where
  "addr_contains ip address = Contains \<lparr>IP = addrIP address, Mask = Netmask address\<rparr> ip"

text \<open>
  The inner loop over \<open>device.Addresses\<close>: the running value of \<open>foundDevice\<close> is
  threaded through, and the early \<open>return\<close> is the \<open>Inl\<close> result.
\<close>

fun findDevice_addresses :: "bytes \<Rightarrow> string \<Rightarrow> string \<Rightarrow> InterfaceAddress list \<Rightarrow> error + string" where
  "findDevice_addresses ip devName foundDevice [] = Inr foundDevice"
| "findDevice_addresses ip devName foundDevice (address # rest) =
     (if addr_contains ip address then
        (if foundDevice = '''' then findDevice_addresses ip devName devName rest
         else if foundDevice \<noteq> devName then Inl multiple_devices
         else findDevice_addresses ip devName foundDevice rest)
      else findDevice_addresses ip devName foundDevice rest)"

text \<open>The outer loop over \<open>devices\<close>.\<close>

fun findDevice_devices :: "bytes \<Rightarrow> string \<Rightarrow> Interface list \<Rightarrow> error + string" where
  "findDevice_devices ip foundDevice [] = Inr foundDevice"
| "findDevice_devices ip foundDevice (device # rest) =
     (case findDevice_addresses ip (Name device) foundDevice (Addresses device) of
        Inl e \<Rightarrow> Inl e
      | Inr found \<Rightarrow> findDevice_devices ip found rest)"

text \<open>
  \<open>findDevice\<close>; the first argument is what \<open>pcap.FindAllDevs()\<close> returned.
\<close>

definition findDevice :: "error + Interface list \<Rightarrow> bytes \<Rightarrow> error + string" where
  "findDevice allDevs ip =
     (case allDevs of
        Inl err \<Rightarrow> Inl err
      | Inr devices \<Rightarrow>
          (case findDevice_devices ip '''' devices of
             Inl e \<Rightarrow> Inl e
           | Inr foundDevice \<Rightarrow>
               if foundDevice = '''' then Inl no_device else Inr foundDevice))"

text \<open>
  The claim's words: an interface matches when one of its address/subnet pairs
  contains the target; \<open>matching_names\<close> are the names of the matching interfaces.
\<close>

definition device_matches :: "bytes \<Rightarrow> Interface \<Rightarrow> bool" where
  "device_matches ip device = list_ex (addr_contains ip) (Addresses device)"

definition matching_names :: "bytes \<Rightarrow> Interface list \<Rightarrow> string list" where
  "matching_names ip devices = map Name (filter (device_matches ip) devices)"

subsection \<open>The client, its buffers and the calls it makes\<close>

text \<open>
  \<open>rawPacket\<close>: \<open>size\<close> and \<open>payload\<close> as in the source; the code handles packets
  through pointers, so \<open>ptr\<close> is the identity of the pointed-to packet.
\<close>

record rawPacket =
  ptr :: nat
  size :: int
  payload :: bytes

text \<open>\<open>syscall.SockaddrInet4\<close>.\<close>

record SockaddrInet4 =
  Port :: int
  Addr :: bytes

text \<open>
  Every call that leaves the client (control session, capture handle, netlink, raw
  socket, logger, pool, channel, process exit) is recorded, in order, as an event.
  A link returned by \<open>netlink.LinkByName\<close> is identified by a number.
\<close>

datatype event =
    CommReadLine
  | CommWriteLine string
  | CommClose
  | ListenerReadFrom nat
  | ListenerClose
  | LinkByName string
  | AddrAdd nat IPNet
  | AddrDel nat IPNet
  | Socket
  | Sendto int bytes SockaddrInet4
  | PoolGet nat
  | PoolPut nat
  | ChanSend nat
  | ChanRecv nat
  | GoSendHealth
  | GoHandlePackets
  | WgDone
  | LogDebug string
  | LogWarn string
  | LogError string
  | LogPanic string
  | OsExit int

text \<open>
  The \<open>Client\<close> fields that networking.go reads and writes. \<open>packets\<close> is the content
  of the channel \<open>c.packets\<close>, oldest first. Its capacity is set where the channel is
  made, outside this file: a send that has to wait for room is a send that takes place
  later in a run. \<open>effects\<close> is the log of events so far.
\<close>

record Client =
  name :: string
  vip :: bytes
  dataIP :: bytes
  state :: State
  packets :: "rawPacket list"
  effects :: "event list"

definition emit :: "event \<Rightarrow> Client \<Rightarrow> Client" where
  "emit e c = c\<lparr>effects := effects c @ [e]\<rparr>"

text \<open>The loop condition \<open>c.state == Active || c.state == Paused\<close>.\<close>

definition running :: "Client \<Rightarrow> bool" where
  "running c = (state c = Active \<or> state c = Paused)"

text \<open>The process has ended once \<open>os.Exit\<close> has been called.\<close>

definition exited :: "Client \<Rightarrow> bool" where
  "exited c = list_ex (\<lambda>e. case e of OsExit _ \<Rightarrow> True | _ \<Rightarrow> False) (effects c)"

text \<open>
  What the outside world answers during one run of a function: the error results of
  the session and handle calls, of \<open>netlink.LinkByName("lo")\<close> and of
  \<open>netlink.AddrAdd\<close>/\<open>AddrDel\<close>, and the value \<open>recover()\<close> yields (\<open>nil\<close> unless the
  function runs as a deferred call of a panicking goroutine).
\<close>

record responses =
  writeLine_err :: "error option"
  commClose_err :: "error option"
  listenerClose_err :: "error option"
  linkByName_lo :: "error + nat"
  addr_err :: "error option"
  recovered :: "string option"

subsection \<open>\<open>sync.Pool\<close> and \<open>initPacketPool\<close>\<close>

text \<open>
  The pool holds idle packets and \<open>Put\<close> adds one. \<open>Get\<close> hands out an idle packet or
  calls \<open>New\<close>; \<open>sync.Pool\<close> promises neither an order nor that an idle packet is
  found, so \<open>choice\<close> says what a call of \<open>Get\<close> does: with \<open>Some k\<close> it hands out the
  \<open>k\<close>-th idle packet when there is one, in every other case it calls \<open>New\<close>. \<open>New\<close>
  of \<open>initPacketPool size\<close> allocates a packet with \<open>size = 0\<close> and \<open>size\<close> zero
  bytes; \<open>fresh\<close> is the next unused identity.
\<close>

record Pool =
  idle :: "rawPacket list"
  fresh :: nat
  bufsize :: nat

definition initPacketPool :: "nat \<Rightarrow> Pool" where
  "initPacketPool sz = \<lparr>idle = [], fresh = 0, bufsize = sz\<rparr>"

definition Pool_New :: "Pool \<Rightarrow> rawPacket \<times> Pool" where
  "Pool_New pool =
     (\<lparr>ptr = fresh pool, size = 0, payload = replicate (bufsize pool) 0\<rparr>,
      pool\<lparr>fresh := Suc (fresh pool)\<rparr>)"

definition Pool_Get :: "nat option \<Rightarrow> Pool \<Rightarrow> rawPacket \<times> Pool" where
  "Pool_Get choice pool =
     (case choice of
        None \<Rightarrow> Pool_New pool
      | Some k \<Rightarrow>
          if k < length (idle pool)
          then (idle pool ! k, pool\<lparr>idle := take k (idle pool) @ drop (Suc k) (idle pool)\<rparr>)
          else Pool_New pool)"

definition Pool_Put :: "rawPacket \<Rightarrow> Pool \<Rightarrow> Pool" where
  "Pool_Put p pool = pool\<lparr>idle := p # idle pool\<rparr>"

subsection \<open>Lifecycle commands and shutdown\<close>

text \<open>\<open>deregister\<close>: the argument is the result of \<open>WriteLine\<close>, which it returns.\<close>

definition deregister :: "error option \<Rightarrow> Client \<Rightarrow> Client \<times> error option" where
  "deregister wr c =
     (emit (CommWriteLine (''DEREGISTER '' @ name c)) (c\<lparr>state := Deregistering\<rparr>), wr)"

definition pause :: "error option \<Rightarrow> Client \<Rightarrow> Client \<times> error option" where
  "pause wr c =
     (if state c = Paused then (c, Some (Error ''cannot pause an already paused client''))
      else (emit (CommWriteLine (''PAUSE '' @ name c)) c, wr))"

definition resume :: "error option \<Rightarrow> Client \<Rightarrow> Client \<times> error option" where
  "resume wr c =
     (if state c = Active then (c, Some (Error ''cannot resume an already active client''))
      else (emit (CommWriteLine (''RESUME '' @ name c)) c, wr))"

text \<open>
  \<open>attachVIP\<close> and \<open>detachVIP\<close>: the first argument is the result of
  \<open>netlink.LinkByName("lo")\<close>, the second the result of \<open>AddrAdd\<close>/\<open>AddrDel\<close>.
\<close>

definition vipNet :: "Client \<Rightarrow> IPNet" where
  "vipNet c = \<lparr>IP = vip c, Mask = CIDRMask_32_32\<rparr>"

definition attachVIP :: "error + nat \<Rightarrow> error option \<Rightarrow> Client \<Rightarrow> Client \<times> error option" where
  "attachVIP lo_res add_res c =
     (case lo_res of
        Inl err \<Rightarrow> (emit (LinkByName ''lo'') c, Some err)
      | Inr lo \<Rightarrow> (emit (AddrAdd lo (vipNet c)) (emit (LinkByName ''lo'') c), None))"

definition detachVIP :: "error + nat \<Rightarrow> error option \<Rightarrow> Client \<Rightarrow> Client \<times> error option" where
  "detachVIP lo_res del_res c =
     (case lo_res of
        Inl err \<Rightarrow> (emit (LinkByName ''lo'') c, Some err)
      | Inr lo \<Rightarrow> (emit (AddrDel lo (vipNet c)) (emit (LinkByName ''lo'') c), None))"

text \<open>The \<open>if r := recover(); r != nil\<close> statement of \<open>gracefulStop\<close>.\<close>

definition recover_and_log :: "string option \<Rightarrow> Client \<Rightarrow> Client" where
  "recover_and_log r c = (case r of None \<Rightarrow> c | Some v \<Rightarrow> emit (LogError v) c)"

text \<open>\<open>gracefulStop\<close>: every result of the calls it makes is dropped.\<close>

definition gracefulStop :: "responses \<Rightarrow> Client \<Rightarrow> Client" where
  "gracefulStop r c =
     (let c1 = (if state c \<noteq> Deregistering then fst (deregister (writeLine_err r) c) else c);
          c2 = emit CommClose c1;
          c3 = emit ListenerClose c2;
          c4 = fst (detachVIP (linkByName_lo r) (addr_err r) c3);
          c5 = recover_and_log (recovered r) c4
      in emit (OsExit 0) c5)"

subsection \<open>The control reader: \<open>manageBalancerConnection\<close>\<close>

text \<open>
  \<open>strings.Split(message, " ")\<close>: the pieces between the spaces, empty pieces kept;
  a string without a space gives itself as the only piece.
\<close>

fun strings_Split :: "string \<Rightarrow> string list" where
  "strings_Split [] = [[]]"
| "strings_Split (ch # rest) =
     (if ch = CHR '' '' then [] # strings_Split rest
      else (case strings_Split rest of
              [] \<Rightarrow> [[ch]]
            | t # ts \<Rightarrow> (ch # t) # ts))"

text \<open>The first space-separated token of a line, in the words of the wire format.\<close>

definition first_token :: "string \<Rightarrow> string" where
  "first_token message = takeWhile (\<lambda>ch. ch \<noteq> CHR '' '') message"

text \<open>
  The body of the reader's loop once \<open>ReadLine\<close> has returned \<open>message\<close> without error.
  The second component tells whether the loop goes on (\<open>continue\<close>, or the end of the
  \<open>switch\<close>); \<open>False\<close> is the \<open>return\<close> behind \<open>gracefulStop\<close>.
\<close>

definition manageBalancerConnection_body :: "responses \<Rightarrow> string \<Rightarrow> Client \<Rightarrow> Client \<times> bool" where
  "manageBalancerConnection_body r message c =
     (let tokens = strings_Split message in
      if length tokens < 1 then
        (emit (LogDebug ''Empty message received from server'') c, True)
      else if tokens ! 0 = ''INVALID'' then (emit (LogDebug message) c, True)
      else if tokens ! 0 = ''DEREGISTERED'' then
        (gracefulStop r (c\<lparr>state := Deregistering\<rparr>), False)
      else if tokens ! 0 = ''PAUSED'' then (c\<lparr>state := Paused\<rparr>, True)
      else if tokens ! 0 = ''RESUMED'' then (c\<lparr>state := Active\<rparr>, True)
      else if tokens ! 0 = ''HEALTHACK'' then
        ((if length tokens < 2
          then emit (LogDebug ''HEALTHACK received from server with no status code'') c
          else c), True)
      else
        (emit (LogDebug (''Message received from server not matching spec: '' @ message)) c,
         True))"

text \<open>
  How a loop of the client ends in the model: the function returned, the process
  exited, a goroutine panicked, or the loop waits for input the run does not supply.
\<close>

datatype 'a ending = Returned 'a | ProcessExit | Panicked | Waiting

text \<open>
  The reader's loop over the results of the successive \<open>ReadLine\<close> calls. When the loop
  condition fails the function returns and its deferred calls run (the debug line, then
  \<open>wg.Done\<close>); after \<open>gracefulStop\<close> the process has exited.
\<close>

fun manageBalancerConnection_loop ::
  "responses \<Rightarrow> (error + string) list \<Rightarrow> Client \<Rightarrow> Client \<times> unit ending" where
  "manageBalancerConnection_loop r [] c =
     (if running c then (c, Waiting)
      else (emit WgDone (emit (LogDebug ''ended balancer connection management'') c),
            Returned ()))"
| "manageBalancerConnection_loop r (rd # rds) c =
     (if running c then
        (case rd of
           Inl err \<Rightarrow>
             (gracefulStop r
                (emit (LogError ''Read timeout exceeded. Stopping'') (emit CommReadLine c)),
              ProcessExit)
         | Inr message \<Rightarrow>
             (case manageBalancerConnection_body r message (emit CommReadLine c) of
                (c', True) \<Rightarrow> manageBalancerConnection_loop r rds c'
              | (c', False) \<Rightarrow> (c', ProcessExit)))
      else (emit WgDone (emit (LogDebug ''ended balancer connection management'') c),
            Returned ()))"

definition manageBalancerConnection ::
  "responses \<Rightarrow> (error + string) list \<Rightarrow> Client \<Rightarrow> Client \<times> unit ending" where
  "manageBalancerConnection r reads c = manageBalancerConnection_loop r reads (emit GoSendHealth c)"

subsection \<open>\<open>getMTU\<close>\<close>

text \<open>
  \<open>getMTU\<close>: \<open>allDevs\<close> is the result of \<open>pcap.FindAllDevs\<close>, \<open>linkMTU name\<close> the
  result of \<open>netlink.LinkByName name\<close> followed by \<open>Attrs().MTU\<close>.
\<close>

definition getMTU ::
  "error + Interface list \<Rightarrow> (string \<Rightarrow> error + nat) \<Rightarrow> Client \<Rightarrow> error + nat" where
  "getMTU allDevs linkMTU c =
     (case findDevice allDevs (dataIP c) of
        Inl err \<Rightarrow> Inl err
      | Inr devName \<Rightarrow>
          (case linkMTU devName of
             Inl err \<Rightarrow> Inl err
           | Inr mtu \<Rightarrow> Inr mtu))"

subsection \<open>The relay workers: \<open>handlePackets\<close>\<close>

text \<open>
  The start of \<open>handlePackets\<close>, up to the loop: the socket is opened (its error is
  dropped; \<open>fd\<close> is what it returned), \<open>log.Panicln\<close> panics when \<open>c.vip.To4()\<close> is
  \<open>nil\<close>, otherwise \<open>copy(vipFour[:], c.vip[:4])\<close> fills the four-byte array.
\<close>

definition handlePackets_setup :: "Client \<Rightarrow> Client \<times> SockaddrInet4 option" where
  "handlePackets_setup c =
     (let c1 = emit Socket c in
      if To4 (vip c) = None then (emit (LogPanic ''vip is not ipv4'') c1, None)
      else (c1, Some \<lparr>Port = 0, Addr = take 4 (vip c)\<rparr>))"

text \<open>
  One pass through the body of the worker's loop. With an empty channel the receive
  blocks. The slice expression \<open>packet.payload[:packet.size]\<close> panics when the size is
  negative or beyond the payload, which \<open>initPacketPool\<close> made with equal length and
  capacity. \<open>send_res\<close> is the result of \<open>syscall.Sendto\<close>.
\<close>

definition handlePackets_iter ::
  "int \<Rightarrow> SockaddrInet4 \<Rightarrow> error option \<Rightarrow> Pool \<Rightarrow> Client \<Rightarrow> Client \<times> Pool \<times> unit ending" where
  "handlePackets_iter fd addr send_res pool c =
     (case packets c of
        [] \<Rightarrow> (c, pool, Waiting)
      | packet # rest \<Rightarrow>
          let c1 = emit (ChanRecv (ptr packet)) (c\<lparr>packets := rest\<rparr>) in
          if size packet < 0 \<or> int (length (payload packet)) < size packet
          then (c1, pool, Panicked)
          else
            let c2 = emit (Sendto fd (take (nat (size packet)) (payload packet)) addr) c1;
                c3 = (case send_res of
                        Some err \<Rightarrow> emit (LogWarn ''Failed to write packet to local vip'') c2
                      | None \<Rightarrow> c2)
            in (emit (PoolPut (ptr packet)) c3, Pool_Put packet pool, Returned ()))"

text \<open>
  The worker's loop over the results of its successive sends, run on its own; the
  third component is \<open>Returned ()\<close> when the loop condition ended it.
\<close>

fun handlePackets_loop ::
  "int \<Rightarrow> SockaddrInet4 \<Rightarrow> error option list \<Rightarrow> Pool \<Rightarrow> Client \<Rightarrow> Client \<times> Pool \<times> unit ending" where
  "handlePackets_loop fd addr [] pool c =
     (if running c then (c, pool, Waiting) else (c, pool, Returned ()))"
| "handlePackets_loop fd addr (send_res # sends) pool c =
     (if running c then
        (case handlePackets_iter fd addr send_res pool c of
           (c', pool', Returned u) \<Rightarrow> handlePackets_loop fd addr sends pool' c'
         | (c', pool', other) \<Rightarrow> (c', pool', other))
      else (c, pool, Returned ()))"

definition handlePackets ::
  "int \<Rightarrow> error option list \<Rightarrow> Pool \<Rightarrow> Client \<Rightarrow> Client \<times> Pool \<times> unit ending" where
  "handlePackets fd sends pool c =
     (case handlePackets_setup c of
        (c1, None) \<Rightarrow> (c1, pool, Panicked)
      | (c1, Some addr) \<Rightarrow> handlePackets_loop fd addr sends pool c1)"

subsection \<open>The capture loop and the workers, statement by statement\<close>

text \<open>
  \<open>listen\<close>, the twenty workers it starts and the control reader run as goroutines
  over the same client, pool and channel, so \<open>listen\<close> and \<open>handlePackets\<close> are
  followed statement by statement. The position of \<open>listen\<close> in its loop: at the loop
  test; inside \<open>ReadFrom\<close> with the packet it took from the pool; about to send the
  filled packet on the channel; returned, with the error it returned.
\<close>

datatype listen_pc = LHead | LReading rawPacket | LSending rawPacket | LReturned "error option"

text \<open>
  The position of a worker in \<open>handlePackets\<close>: before the socket is opened; at the
  loop test; inside the channel receive; holding a received packet before \<open>Sendto\<close>;
  after \<open>Sendto\<close>, before \<open>pool.Put\<close>; returned. A worker keeps its socket and its
  destination address, both Go zero values until the worker has set them.
\<close>

datatype worker_pc = WStart | WHead | WReceiving | WHolding rawPacket | WSent rawPacket | WReturned

record worker =
  wfd :: int
  waddr :: SockaddrInet4
  wpc :: worker_pc

definition new_worker :: worker where
  "new_worker = \<lparr>wfd = 0, waddr = \<lparr>Port = 0, Addr = [0, 0, 0, 0]\<rparr>, wpc = WStart\<rparr>"

text \<open>
  The goroutines together. \<open>dropped\<close> are the packets that nothing refers to any more
  (the local variable of a \<open>listen\<close> that has returned); \<open>crashed\<close> is set by a panic,
  which ends the process.
\<close>

record pipeline =
  pclient :: Client
  ppool :: Pool
  lpc :: listen_pc
  workers :: "worker list"
  dropped :: "rawPacket list"
  crashed :: bool

text \<open>
  \<open>listen\<close> up to its loop: \<open>mtu_res\<close> is the result of \<open>getMTU\<close>. On an error
  \<open>listen\<close> returns it (the deferred \<open>wg.Done\<close> runs; no pool is made, the pool of
  the model stays empty). Otherwise the pool is made, the twenty
  \<open>go c.handlePackets(pool)\<close> statements start the workers, and the state is set to
  \<open>Active\<close>.
\<close>

definition listen_start :: "error + nat \<Rightarrow> Client \<Rightarrow> pipeline" where
  "listen_start mtu_res c =
     (case mtu_res of
        Inl err \<Rightarrow>
          \<lparr>pclient = emit WgDone c, ppool = initPacketPool 0, lpc = LReturned (Some err),
           workers = [], dropped = [], crashed = False\<rparr>
      | Inr mtu \<Rightarrow>
          \<lparr>pclient = c\<lparr>effects := effects c @ replicate 20 GoHandlePackets, state := Active\<rparr>,
           ppool = initPacketPool mtu, lpc = LHead,
           workers = replicate 20 new_worker, dropped = [], crashed = False\<rparr>)"

text \<open>
  The next statement of \<open>listen\<close>. At the loop test it leaves the loop and returns
  \<open>nil\<close> when the state is neither \<open>Active\<close> nor \<open>Paused\<close>, and otherwise takes a
  packet from the pool (\<open>choice\<close>) and enters \<open>ReadFrom\<close>. \<open>rd\<close> is what \<open>ReadFrom\<close>
  does when it returns: it fails, and \<open>listen\<close> returns the error, or a datagram has
  arrived, of which it copies as many bytes as fit into the payload and returns that
  count. Then the packet is sent on the channel. \<open>wg.Done\<close> is deferred and runs at
  each return.
\<close>

definition listen_step :: "nat option \<Rightarrow> error + bytes \<Rightarrow> pipeline \<Rightarrow> pipeline" where
  "listen_step choice rd s =
     (case lpc s of
        LHead \<Rightarrow>
          if running (pclient s) then
            (case Pool_Get choice (ppool s) of
               (packet, pool') \<Rightarrow>
                 s\<lparr>pclient := emit (PoolGet (ptr packet)) (pclient s), ppool := pool',
                   lpc := LReading packet\<rparr>)
          else s\<lparr>pclient := emit WgDone (pclient s), lpc := LReturned None\<rparr>
      | LReading packet \<Rightarrow>
          (case rd of
             Inl err \<Rightarrow>
               s\<lparr>pclient := emit WgDone (emit (ListenerReadFrom (ptr packet)) (pclient s)),
                 lpc := LReturned (Some err), dropped := packet # dropped s\<rparr>
           | Inr datagram \<Rightarrow>
               let n = min (length datagram) (length (payload packet)) in
               s\<lparr>pclient := emit (ListenerReadFrom (ptr packet)) (pclient s),
                 lpc := LSending (packet\<lparr>size := int n,
                          payload := take n datagram @ drop n (payload packet)\<rparr>)\<rparr>)
      | LSending packet \<Rightarrow>
          s\<lparr>pclient := emit (ChanSend (ptr packet))
                 ((pclient s)\<lparr>packets := packets (pclient s) @ [packet]\<rparr>),
            lpc := LHead\<rparr>
      | LReturned e \<Rightarrow> s)"

text \<open>
  The next statement of worker \<open>w\<close>. Its start is \<open>handlePackets_setup\<close>, with \<open>fd\<close>
  what \<open>syscall.Socket\<close> returned. With an empty channel the receive blocks and
  nothing happens. The slice expression \<open>packet.payload[:packet.size]\<close> panics when the
  size is negative or beyond the payload. \<open>send_res\<close> is the result of
  \<open>syscall.Sendto\<close>.
\<close>

definition worker_step :: "nat \<Rightarrow> int \<Rightarrow> error option \<Rightarrow> pipeline \<Rightarrow> pipeline" where
  "worker_step w fd send_res s =
     (if length (workers s) \<le> w then s
      else
        let wk = workers s ! w in
        (case wpc wk of
           WStart \<Rightarrow>
             (case handlePackets_setup (pclient s) of
                (c1, None) \<Rightarrow> s\<lparr>pclient := c1, crashed := True\<rparr>
              | (c1, Some addr) \<Rightarrow>
                  s\<lparr>pclient := c1,
                    workers := (workers s)[w := wk\<lparr>wfd := fd, waddr := addr, wpc := WHead\<rparr>]\<rparr>)
         | WHead \<Rightarrow>
             if running (pclient s)
             then s\<lparr>workers := (workers s)[w := wk\<lparr>wpc := WReceiving\<rparr>]\<rparr>
             else s\<lparr>workers := (workers s)[w := wk\<lparr>wpc := WReturned\<rparr>]\<rparr>
         | WReceiving \<Rightarrow>
             (case packets (pclient s) of
                [] \<Rightarrow> s
              | packet # rest \<Rightarrow>
                  s\<lparr>pclient := emit (ChanRecv (ptr packet)) ((pclient s)\<lparr>packets := rest\<rparr>),
                    workers := (workers s)[w := wk\<lparr>wpc := WHolding packet\<rparr>]\<rparr>)
         | WHolding packet \<Rightarrow>
             if size packet < 0 \<or> int (length (payload packet)) < size packet
             then s\<lparr>crashed := True\<rparr>
             else
               let c2 = emit (Sendto (wfd wk) (take (nat (size packet)) (payload packet))
                               (waddr wk)) (pclient s);
                   c3 = (case send_res of
                           Some err \<Rightarrow> emit (LogWarn ''Failed to write packet to local vip'') c2
                         | None \<Rightarrow> c2)
               in s\<lparr>pclient := c3, workers := (workers s)[w := wk\<lparr>wpc := WSent packet\<rparr>]\<rparr>
         | WSent packet \<Rightarrow>
             s\<lparr>pclient := emit (PoolPut (ptr packet)) (pclient s),
               ppool := Pool_Put packet (ppool s),
               workers := (workers s)[w := wk\<lparr>wpc := WHead\<rparr>]\<rparr>
         | WReturned \<Rightarrow> s))"

text \<open>
  A run is a sequence of actions. An action names the goroutine that executes its next
  statement and carries what the outside answers if that statement asks it something:
  for \<open>listen\<close> the choice of the pool and the result of the read, for a worker the
  socket and the result of the send. \<open>Control\<close> is a write of the lifecycle state by
  the control side, \<open>Collect\<close> the pool giving up its idle packets, as \<open>sync.Pool\<close>
  does at garbage collections. Nothing runs after a panic.
\<close>

datatype action =
    Listen "nat option" "error + bytes"
  | Work nat int "error option"
  | Control State
  | Collect

fun pipeline_step :: "action \<Rightarrow> pipeline \<Rightarrow> pipeline" where
  "pipeline_step (Listen choice rd) s = (if crashed s then s else listen_step choice rd s)"
| "pipeline_step (Work w fd send_res) s = (if crashed s then s else worker_step w fd send_res s)"
| "pipeline_step (Control st) s =
     (if crashed s then s else s\<lparr>pclient := (pclient s)\<lparr>state := st\<rparr>\<rparr>)"
| "pipeline_step Collect s =
     (if crashed s then s else s\<lparr>ppool := (ppool s)\<lparr>idle := []\<rparr>\<rparr>)"

fun pipeline_run :: "action list \<Rightarrow> pipeline \<Rightarrow> pipeline" where
  "pipeline_run [] s = s"
| "pipeline_run (a # as) s = pipeline_run as (pipeline_step a s)"

text \<open>
  \<open>listen\<close>, run together with the goroutines around it as the schedule says. It has
  returned \<open>e\<close> when its position is \<open>LReturned e\<close>.
\<close>

definition listen :: "error + nat \<Rightarrow> action list \<Rightarrow> Client \<Rightarrow> pipeline" where
  "listen mtu_res sched c = pipeline_run sched (listen_start mtu_res c)"

text \<open>Acquisitions and releases of the packet \<open>b\<close> in a log of events, and reads made.\<close>

definition acquires :: "nat \<Rightarrow> event list \<Rightarrow> nat" where
  "acquires b es = count_list es (PoolGet b)"

definition releases :: "nat \<Rightarrow> event list \<Rightarrow> nat" where
  "releases b es = count_list es (PoolPut b)"

definition reads_made :: "event list \<Rightarrow> nat" where
  "reads_made es = length (filter (\<lambda>e. case e of ListenerReadFrom p \<Rightarrow> True | _ \<Rightarrow> False) es)"

text \<open>
  Where a packet that was acquired and not yet released can be: with \<open>listen\<close>
  (between \<open>pool.Get\<close> and the channel send), in the channel, with a worker (between
  the receive and \<open>pool.Put\<close>), or dropped. \<open>outstanding b s\<close> counts the places that
  hold the packet \<open>b\<close>.
\<close>

definition held_listen :: "listen_pc \<Rightarrow> rawPacket list" where
  "held_listen pc = (case pc of LReading p \<Rightarrow> [p] | LSending p \<Rightarrow> [p] | _ \<Rightarrow> [])"

definition held_worker :: "worker \<Rightarrow> rawPacket list" where
  "held_worker wk = (case wpc wk of WHolding p \<Rightarrow> [p] | WSent p \<Rightarrow> [p] | _ \<Rightarrow> [])"

definition cnt :: "nat \<Rightarrow> rawPacket list \<Rightarrow> nat" where
  "cnt b ps = count_list (map ptr ps) b"

definition outstanding :: "nat \<Rightarrow> pipeline \<Rightarrow> nat" where
  "outstanding b s =
     cnt b (held_listen (lpc s)) + cnt b (packets (pclient s))
     + sum_list (map (\<lambda>wk. cnt b (held_worker wk)) (workers s)) + cnt b (dropped s)"

text \<open>
  What the proofs keep track of: a packet's size lies within its payload; a packet is in
  at most one place, the idle list of the pool included, and was handed out by the pool;
  every acquisition of a packet is matched by a release, but for the outstanding ones;
  and a packet is dropped only by a \<open>listen\<close> that returned an error.
\<close>

definition size_ok :: "rawPacket \<Rightarrow> bool" where
  "size_ok p = (0 \<le> size p \<and> size p \<le> int (length (payload p)))"









text \<open>
  The events by which the client shuts down or reports something: a line written to the
  control session, the closes, the detachment, the exit, and every log line.
\<close>

definition stop_or_log :: "event \<Rightarrow> bool" where
  "stop_or_log e =
     (case e of
        CommWriteLine line \<Rightarrow> True
      | CommClose \<Rightarrow> True
      | ListenerClose \<Rightarrow> True
      | LinkByName link \<Rightarrow> True
      | AddrDel lo net \<Rightarrow> True
      | LogDebug msg \<Rightarrow> True
      | LogWarn msg \<Rightarrow> True
      | LogError msg \<Rightarrow> True
      | LogPanic msg \<Rightarrow> True
      | OsExit code \<Rightarrow> True
      | _ \<Rightarrow> False)"

subsection \<open>Two shutdowns at once\<close>

text \<open>
  \<open>gracefulStop\<close> statement by statement, for runs in which two goroutines are inside
  it together: the position of a goroutine within \<open>gracefulStop\<close> (and within
  \<open>deregister\<close>, which it calls), and the effect of its next statement.
\<close>

datatype stop_pc =
    AtCheck | AtSetState | AtWriteLine | AtCommClose | AtListenerClose
  | AtDetachVIP | AtRecover | AtExit | Finished

fun gracefulStop_step :: "responses \<Rightarrow> stop_pc \<Rightarrow> Client \<Rightarrow> stop_pc \<times> Client" where
  "gracefulStop_step r AtCheck c =
     (if state c \<noteq> Deregistering then (AtSetState, c) else (AtCommClose, c))"
| "gracefulStop_step r AtSetState c = (AtWriteLine, c\<lparr>state := Deregistering\<rparr>)"
| "gracefulStop_step r AtWriteLine c =
     (AtCommClose, emit (CommWriteLine (''DEREGISTER '' @ name c)) c)"
| "gracefulStop_step r AtCommClose c = (AtListenerClose, emit CommClose c)"
| "gracefulStop_step r AtListenerClose c = (AtDetachVIP, emit ListenerClose c)"
| "gracefulStop_step r AtDetachVIP c =
     (AtRecover, fst (detachVIP (linkByName_lo r) (addr_err r) c))"
| "gracefulStop_step r AtRecover c = (AtExit, recover_and_log (recovered r) c)"
| "gracefulStop_step r AtExit c = (Finished, emit (OsExit 0) c)"
| "gracefulStop_step r Finished c = (Finished, c)"

text \<open>
  A schedule says which goroutine takes the next step (\<open>True\<close>: the first). Nothing
  runs once the process has exited.
\<close>

fun concurrent_stops ::
  "responses \<Rightarrow> responses \<Rightarrow> bool list \<Rightarrow> stop_pc \<times> stop_pc \<times> Client \<Rightarrow> stop_pc \<times> stop_pc \<times> Client" where
  "concurrent_stops ra rb [] s = s"
| "concurrent_stops ra rb (first # sched) (pa, pb, c) =
     (if exited c then (pa, pb, c)
      else if first then
        (case gracefulStop_step ra pa c of (pa', c') \<Rightarrow> concurrent_stops ra rb sched (pa', pb, c'))
      else
        (case gracefulStop_step rb pb c of (pb', c') \<Rightarrow> concurrent_stops ra rb sched (pa, pb', c')))"

text \<open>
  For the proofs: whether a goroutine at a given position may still write its
  \<open>DEREGISTER\<close> line, and whether it may still call \<open>detachVIP\<close>.
\<close>

fun may_write :: "stop_pc \<Rightarrow> nat" where
  "may_write AtCheck = 1"
| "may_write AtSetState = 1"
| "may_write AtWriteLine = 1"
| "may_write _ = 0"

fun may_detach :: "stop_pc \<Rightarrow> nat" where
  "may_detach AtRecover = 0"
| "may_detach AtExit = 0"
| "may_detach Finished = 0"
| "may_detach _ = 1"

text \<open>The \<open>DEREGISTER\<close> lines written and the detachments attempted in a log of events.\<close>

definition deregister_messages :: "Client \<Rightarrow> event list \<Rightarrow> nat" where
  "deregister_messages c es = count_list es (CommWriteLine (''DEREGISTER '' @ name c))"

definition detach_attempts :: "event list \<Rightarrow> nat" where
  "detach_attempts es = count_list es (LinkByName ''lo'')"

subsection \<open>Concrete inputs used to exercise the theorems\<close>

definition eth0 :: Interface where
  "eth0 = \<lparr>Name = ''eth0'', Addresses = [\<lparr>addrIP = [10, 0, 0, 1], Netmask = [255, 255, 255, 0]\<rparr>]\<rparr>"

definition eth1 :: Interface where
  "eth1 = \<lparr>Name = ''eth1'', Addresses = [\<lparr>addrIP = [192, 168, 1, 1], Netmask = [255, 255, 255, 0]\<rparr>]\<rparr>"

definition node1 :: Client where
  "node1 = \<lparr>name = ''node1'', vip = [10, 0, 0, 100], dataIP = [10, 0, 0, 7],
            state = Active, packets = [], effects = []\<rparr>"

definition all_ok :: responses where
  "all_ok = \<lparr>writeLine_err = None, commClose_err = None, listenerClose_err = None,
             linkByName_lo = Inr 1, addr_err = None, recovered = None\<rparr>"

definition node16 :: Client where
  "node16 = node1\<lparr>vip := [0, 0, 0, 0, 0, 0, 0, 0, 0, 0, 0xff, 0xff, 10, 0, 0, 100]\<rparr>"

definition read_failed :: error where
  "read_failed = Error ''use of closed network connection''"


definition racing_schedule :: "bool list" where
  "racing_schedule = [True, False, True, True, False, False,
                      True, True, True, False, False, False]"

definition late_second_schedule :: "bool list" where
  "late_second_schedule = [True, True, True, True, True, True, False, False, False, False]"



definition packet0 :: rawPacket where
  "packet0 = \<lparr>ptr = 0, size = 3, payload = [1, 2, 3, 0]\<rparr>"

section \<open>Properties\<close>

subsection \<open>Basic facts about the event log\<close>

lemma effects_emit [simp]: "effects (emit e c) = effects c @ [e]"
  by (simp add: emit_def)

lemma state_emit [simp]: "state (emit e c) = state c"
  by (simp add: emit_def)

lemma name_emit [simp]: "name (emit e c) = name c"
  by (simp add: emit_def)

lemma vip_emit [simp]: "vip (emit e c) = vip c"
  by (simp add: emit_def)

lemma packets_emit [simp]: "packets (emit e c) = packets c"
  by (simp add: emit_def)

lemma running_emit [simp]: "running (emit e c) = running c"
  by (simp add: running_def)

lemma vipNet_emit [simp]: "vipNet (emit e c) = vipNet c"
  by (simp add: vipNet_def)

lemma vipNet_state [simp]: "vipNet (c\<lparr>state := s\<rparr>) = vipNet c"
  by (simp add: vipNet_def)

lemma exited_emit_exit: "exited (emit (OsExit n) c)"
  by (simp add: exited_def)

subsection \<open>Device resolution\<close>

lemma findDevice_addresses_eq:
  "findDevice_addresses ip devName found as =
     (if list_ex (addr_contains ip) as
      then (if found = '''' \<or> found = devName then Inr devName else Inl multiple_devices)
      else Inr found)"
  by (induction as arbitrary: found) auto

lemma findDevice_devices_eq:
  assumes "\<forall>d \<in> set devices. device_matches ip d \<longrightarrow> Name d \<noteq> ''''"
  shows "findDevice_devices ip found devices =
     (if found = '''' then
        (case matching_names ip devices of
           [] \<Rightarrow> Inr ''''
         | n # ns \<Rightarrow> if set ns \<subseteq> {n} then Inr n else Inl multiple_devices)
      else if set (matching_names ip devices) \<subseteq> {found} then Inr found
      else Inl multiple_devices)"
  using assms
proof (induction devices arbitrary: found)
  case Nil
  then show ?case by (simp add: matching_names_def)
next
  case (Cons d ds)
  then show ?case
    by (simp add: findDevice_addresses_eq matching_names_def device_matches_def split: list.splits)
qed

lemma matching_names_nonempty:
  assumes "\<forall>d \<in> set devices. device_matches ip d \<longrightarrow> Name d \<noteq> ''''"
  shows "'''' \<notin> set (matching_names ip devices)"
  using assms by (auto simp: matching_names_def)

lemma findDevice_cases:
  assumes "\<forall>d \<in> set devices. device_matches ip d \<longrightarrow> Name d \<noteq> ''''"
  shows "findDevice (Inr devices) ip =
     (case matching_names ip devices of
        [] \<Rightarrow> Inl no_device
      | n # ns \<Rightarrow> if set ns \<subseteq> {n} then Inr n else Inl multiple_devices)"
  using matching_names_nonempty [OF assms]
  by (auto simp: findDevice_def findDevice_devices_eq [OF assms] split: list.splits)

lemma contains_10_0_0_7:
  "addr_contains [10, 0, 0, 7] \<lparr>addrIP = [10, 0, 0, 1], Netmask = [255, 255, 255, 0]\<rparr>"
  by (simp add: addr_contains_def Contains_def networkNumberAndMask_def To4_def)

lemma not_contains_10_0_0_7:
  "\<not> addr_contains [10, 0, 0, 7] \<lparr>addrIP = [192, 168, 1, 1], Netmask = [255, 255, 255, 0]\<rparr>"
  by (simp add: addr_contains_def Contains_def networkNumberAndMask_def To4_def)

text \<open>
  C2. The interfaces are those \<open>pcap.FindAllDevs\<close> lists, each under its device name,
  which is never empty (\<open>findDevice\<close> keeps the empty string for "nothing found yet").
  For every target and every such list: when no interface matches, the result is the
  no-matching-device error; when the names of the matching interfaces are all one name,
  that name is returned; when two of them differ, the result is the ambiguous-device
  error; and a name is returned exactly in the second case.
\<close>

theorem findDevice_resolution:
  assumes "\<forall>d \<in> set devices. device_matches ip d \<longrightarrow> Name d \<noteq> ''''"
  shows "(matching_names ip devices = [] \<longrightarrow> findDevice (Inr devices) ip = Inl no_device) \<and>
    (\<forall>n. set (matching_names ip devices) = {n} \<longrightarrow> findDevice (Inr devices) ip = Inr n) \<and>
    ((\<exists>n \<in> set (matching_names ip devices). \<exists>m \<in> set (matching_names ip devices). n \<noteq> m) \<longrightarrow>
       findDevice (Inr devices) ip = Inl multiple_devices) \<and>
    ((\<exists>n. findDevice (Inr devices) ip = Inr n) \<longleftrightarrow> (\<exists>n. set (matching_names ip devices) = {n}))"
proof -
  note eq = findDevice_cases [OF assms]
  show ?thesis
  proof (cases "matching_names ip devices")
    case Nil
    then show ?thesis by (simp add: eq)
  next
    case (Cons a as)
    show ?thesis
    proof (cases "set as \<subseteq> {a}")
      case True
      then have "set (matching_names ip devices) = {a}" using Cons by auto
      then show ?thesis using Cons True by (auto simp: eq)
    next
      case False
      then obtain b where "b \<in> set as" "b \<noteq> a" by auto
      then have "\<not> (\<exists>n. set (matching_names ip devices) = {n})" using Cons by auto
      then show ?thesis using Cons False by (auto simp: eq)
    qed
  qed
qed

theorem findDevice_resolution_witness:
  "matching_names [10, 0, 0, 7] [eth0, eth1] = [''eth0''] \<and>
   findDevice (Inr [eth0, eth1]) [10, 0, 0, 7] = Inr ''eth0''"
proof -
  have names: "matching_names [10, 0, 0, 7] [eth0, eth1] = [''eth0'']"
    by (simp add: matching_names_def device_matches_def eth0_def eth1_def
        contains_10_0_0_7 not_contains_10_0_0_7)
  have hyp: "\<forall>d \<in> set [eth0, eth1]. device_matches [10, 0, 0, 7] d \<longrightarrow> Name d \<noteq> ''''"
    by (simp add: eth0_def eth1_def)
  from findDevice_resolution [OF hyp] names show ?thesis by simp
qed

subsection \<open>Shutdown and lifecycle commands\<close>

lemma gracefulStop_effects:
  "effects (gracefulStop r c) = effects c
      @ (if state c \<noteq> Deregistering then [CommWriteLine (''DEREGISTER '' @ name c)] else [])
      @ [CommClose, ListenerClose, LinkByName ''lo'']
      @ (case linkByName_lo r of Inl err \<Rightarrow> [] | Inr lo \<Rightarrow> [AddrDel lo (vipNet c)])
      @ (case recovered r of None \<Rightarrow> [] | Some v \<Rightarrow> [LogError v])
      @ [OsExit 0]"
  by (simp add: gracefulStop_def deregister_def detachVIP_def recover_and_log_def Let_def
      split: sum.splits option.splits)

lemma gracefulStop_state: "state (gracefulStop r c) = Deregistering"
  by (simp add: gracefulStop_def deregister_def detachVIP_def recover_and_log_def Let_def
      split: sum.splits option.splits)

lemma gracefulStop_exited: "exited (gracefulStop r c)"
  by (simp add: gracefulStop_def Let_def exited_emit_exit)

text \<open>
  C1. The events of \<open>gracefulStop\<close> are, in this order: the line \<open>DEREGISTER <name>\<close>
  when the state on entry is not \<open>Deregistering\<close> (and nothing when it is), the close of
  the control session, the close of the capture handle, the detachment of the VIP (the
  lookup of \<open>lo\<close>, then the removal when the lookup succeeded), the log line for a
  recovered failure, and the exit of the process. Afterwards the state is
  \<open>Deregistering\<close>. Entered in state \<open>Deregistering\<close>, it sends no \<open>DEREGISTER\<close> line.
\<close>

theorem gracefulStop_sequence:
  "effects (gracefulStop r c) = effects c
      @ (if state c \<noteq> Deregistering then [CommWriteLine (''DEREGISTER '' @ name c)] else [])
      @ [CommClose, ListenerClose, LinkByName ''lo'']
      @ (case linkByName_lo r of Inl err \<Rightarrow> [] | Inr lo \<Rightarrow> [AddrDel lo (vipNet c)])
      @ (case recovered r of None \<Rightarrow> [] | Some v \<Rightarrow> [LogError v])
      @ [OsExit 0]
   \<and> state (gracefulStop r c) = Deregistering
   \<and> exited (gracefulStop r c)
   \<and> (state c = Deregistering \<longrightarrow>
        deregister_messages c (effects (gracefulStop r c)) = deregister_messages c (effects c))"
  by (simp add: gracefulStop_effects gracefulStop_state gracefulStop_exited deregister_messages_def
      split: sum.splits option.splits)

theorem gracefulStop_sequence_witness:
  "effects (gracefulStop all_ok (node1\<lparr>state := Deregistering\<rparr>)) =
     [CommClose, ListenerClose, LinkByName ''lo'',
      AddrDel 1 \<lparr>IP = [10, 0, 0, 100], Mask = [0xff, 0xff, 0xff, 0xff]\<rparr>, OsExit 0]
   \<and> effects (gracefulStop all_ok node1) =
     [CommWriteLine ''DEREGISTER node1'', CommClose, ListenerClose, LinkByName ''lo'',
      AddrDel 1 \<lparr>IP = [10, 0, 0, 100], Mask = [0xff, 0xff, 0xff, 0xff]\<rparr>, OsExit 0]
   \<and> deregister_messages node1 (effects (gracefulStop all_ok (node1\<lparr>state := Deregistering\<rparr>))) = 0"
  using gracefulStop_sequence [of all_ok "node1\<lparr>state := Deregistering\<rparr>"]
    gracefulStop_sequence [of all_ok node1]
  by (simp add: node1_def all_ok_def vipNet_def CIDRMask_32_32_def deregister_messages_def)

text \<open>
  C6. \<open>pause\<close> in state \<open>Paused\<close> returns its local error and leaves the client as it
  was (nothing is sent); in any other state it sends exactly \<open>PAUSE <name>\<close> and returns
  what the send returned. \<open>resume\<close> does the same with \<open>Active\<close> and \<open>RESUME <name>\<close>.
  Neither changes the state. \<open>deregister\<close> sets the state to \<open>Deregistering\<close> and sends
  \<open>DEREGISTER <name>\<close>.
\<close>

theorem lifecycle_commands:
  "(state c = Paused \<longrightarrow>
      pause wr c = (c, Some (Error ''cannot pause an already paused client''))) \<and>
   (state c \<noteq> Paused \<longrightarrow>
      effects (fst (pause wr c)) = effects c @ [CommWriteLine (''PAUSE '' @ name c)] \<and>
      snd (pause wr c) = wr) \<and>
   state (fst (pause wr c)) = state c \<and>
   (state c = Active \<longrightarrow>
      resume wr c = (c, Some (Error ''cannot resume an already active client''))) \<and>
   (state c \<noteq> Active \<longrightarrow>
      effects (fst (resume wr c)) = effects c @ [CommWriteLine (''RESUME '' @ name c)] \<and>
      snd (resume wr c) = wr) \<and>
   state (fst (resume wr c)) = state c \<and>
   state (fst (deregister wr c)) = Deregistering \<and>
   effects (fst (deregister wr c)) = effects c @ [CommWriteLine (''DEREGISTER '' @ name c)] \<and>
   snd (deregister wr c) = wr"
  by (simp add: pause_def resume_def deregister_def)

theorem lifecycle_commands_witness:
  "pause None (node1\<lparr>state := Paused\<rparr>) =
     (node1\<lparr>state := Paused\<rparr>, Some (Error ''cannot pause an already paused client'')) \<and>
   effects (fst (pause None node1)) = [CommWriteLine ''PAUSE node1''] \<and>
   resume None node1 = (node1, Some (Error ''cannot resume an already active client'')) \<and>
   effects (fst (resume None (node1\<lparr>state := Paused\<rparr>))) = [CommWriteLine ''RESUME node1''] \<and>
   state (fst (resume None (node1\<lparr>state := Paused\<rparr>))) = Paused"
  using lifecycle_commands [of "node1\<lparr>state := Paused\<rparr>" None] lifecycle_commands [of node1 None]
  by (simp add: node1_def)

text \<open>
  C9. \<open>attachVIP\<close> returns an error exactly when the lookup of \<open>lo\<close> fails, and then
  that error; when the lookup succeeds it calls \<open>AddrAdd\<close> and returns \<open>nil\<close> whatever
  \<open>AddrAdd\<close> returned. \<open>detachVIP\<close> does the same with \<open>AddrDel\<close>.
\<close>

theorem vip_errors_only_from_lookup:
  "(snd (attachVIP lo_res add_res c) \<noteq> None \<longleftrightarrow> (\<exists>err. lo_res = Inl err)) \<and>
   (\<forall>err. snd (attachVIP (Inl err) add_res c) = Some err) \<and>
   (\<forall>lo. attachVIP (Inr lo) add_res c =
      (c\<lparr>effects := effects c @ [LinkByName ''lo'', AddrAdd lo (vipNet c)]\<rparr>, None)) \<and>
   (snd (detachVIP lo_res del_res c) \<noteq> None \<longleftrightarrow> (\<exists>err. lo_res = Inl err)) \<and>
   (\<forall>err. snd (detachVIP (Inl err) del_res c) = Some err) \<and>
   (\<forall>lo. detachVIP (Inr lo) del_res c =
      (c\<lparr>effects := effects c @ [LinkByName ''lo'', AddrDel lo (vipNet c)]\<rparr>, None))"
  by (cases lo_res) (simp_all add: attachVIP_def detachVIP_def emit_def vipNet_def)

theorem vip_errors_only_from_lookup_witness:
  "snd (attachVIP (Inr 1) (Some (Error ''file exists'')) node1) = None \<and>
   snd (attachVIP (Inr 1) (Some (Error ''operation not permitted'')) node1) = None \<and>
   snd (detachVIP (Inr 1) (Some (Error ''cannot assign requested address'')) node1) = None \<and>
   snd (attachVIP (Inl (Error ''Link not found'')) None node1) = Some (Error ''Link not found'') \<and>
   snd (detachVIP (Inl (Error ''Link not found'')) None node1) = Some (Error ''Link not found'')"
  using vip_errors_only_from_lookup [of "Inr 1" "Some (Error ''file exists'')" node1
      "Some (Error ''cannot assign requested address'')"]
    vip_errors_only_from_lookup [of "Inr 1" "Some (Error ''operation not permitted'')" node1 None]
    vip_errors_only_from_lookup [of "Inl (Error ''Link not found'')" None node1 None]
  by simp

subsection \<open>The control reader\<close>

lemma strings_Split_nonempty: "strings_Split s \<noteq> []"
  by (induction s) (auto split: list.splits)

lemma strings_Split_first: "strings_Split s ! 0 = first_token s"
  by (induction s) (auto simp: first_token_def strings_Split_nonempty split: list.splits)

lemma body_cases:
  "manageBalancerConnection_body r message c =
     (if first_token message = ''INVALID'' then (emit (LogDebug message) c, True)
      else if first_token message = ''DEREGISTERED'' then
        (gracefulStop r (c\<lparr>state := Deregistering\<rparr>), False)
      else if first_token message = ''PAUSED'' then (c\<lparr>state := Paused\<rparr>, True)
      else if first_token message = ''RESUMED'' then (c\<lparr>state := Active\<rparr>, True)
      else if first_token message = ''HEALTHACK'' then
        ((if length (strings_Split message) < 2
          then emit (LogDebug ''HEALTHACK received from server with no status code'') c
          else c), True)
      else
        (emit (LogDebug (''Message received from server not matching spec: '' @ message)) c,
         True))"
  using strings_Split_nonempty [of message]
  by (simp add: manageBalancerConnection_body_def Let_def strings_Split_first)

text \<open>
  C3. For a line read without error, the effect of the reader's loop body follows the
  first space-separated token: \<open>PAUSED\<close> sets the state to \<open>Paused\<close>, \<open>RESUMED\<close> sets
  it to \<open>Active\<close>, \<open>DEREGISTERED\<close> sets it to \<open>Deregistering\<close>, runs \<open>gracefulStop\<close>
  and ends the loop; every other line (\<open>INVALID\<close>, \<open>HEALTHACK\<close> with or without a second
  token, the empty line, anything unrecognized) leaves the state as it was and the loop
  goes on. The body has no failing operation: the index \<open>tokens[0]\<close> is guarded. While
  the state is \<open>Active\<close> or \<open>Paused\<close> the loop applies the body to each line read.
\<close>

theorem control_directives:
  "(first_token message = ''PAUSED'' \<longrightarrow>
      manageBalancerConnection_body r message c = (c\<lparr>state := Paused\<rparr>, True)) \<and>
   (first_token message = ''RESUMED'' \<longrightarrow>
      manageBalancerConnection_body r message c = (c\<lparr>state := Active\<rparr>, True)) \<and>
   (first_token message = ''DEREGISTERED'' \<longrightarrow>
      manageBalancerConnection_body r message c =
        (gracefulStop r (c\<lparr>state := Deregistering\<rparr>), False) \<and>
      state (fst (manageBalancerConnection_body r message c)) = Deregistering \<and>
      exited (fst (manageBalancerConnection_body r message c))) \<and>
   (first_token message \<noteq> ''PAUSED'' \<and> first_token message \<noteq> ''RESUMED'' \<and>
    first_token message \<noteq> ''DEREGISTERED'' \<longrightarrow>
      state (fst (manageBalancerConnection_body r message c)) = state c \<and>
      snd (manageBalancerConnection_body r message c)) \<and>
   (running c \<longrightarrow>
      manageBalancerConnection_loop r (Inr message # rds) c =
        (if snd (manageBalancerConnection_body r message (emit CommReadLine c))
         then manageBalancerConnection_loop r rds
                (fst (manageBalancerConnection_body r message (emit CommReadLine c)))
         else (fst (manageBalancerConnection_body r message (emit CommReadLine c)), ProcessExit)))"
proof -
  have loop: "running c \<longrightarrow>
      manageBalancerConnection_loop r (Inr message # rds) c =
        (if snd (manageBalancerConnection_body r message (emit CommReadLine c))
         then manageBalancerConnection_loop r rds
                (fst (manageBalancerConnection_body r message (emit CommReadLine c)))
         else (fst (manageBalancerConnection_body r message (emit CommReadLine c)), ProcessExit))"
    by (cases "manageBalancerConnection_body r message (emit CommReadLine c)") auto
  show ?thesis
    using loop by (simp add: body_cases gracefulStop_state gracefulStop_exited)
qed

theorem control_directives_witness:
  "manageBalancerConnection_body all_ok ''PAUSED'' node1 = (node1\<lparr>state := Paused\<rparr>, True) \<and>
   state (fst (manageBalancerConnection_body all_ok ''RESUMED'' (node1\<lparr>state := Paused\<rparr>))) = Active \<and>
   state (fst (manageBalancerConnection_body all_ok ''DEREGISTERED'' node1)) = Deregistering \<and>
   \<not> snd (manageBalancerConnection_body all_ok ''DEREGISTERED'' node1) \<and>
   state (fst (manageBalancerConnection_body all_ok [] node1)) = Active \<and>
   state (fst (manageBalancerConnection_body all_ok ''HEALTHACK 200'' node1)) = Active \<and>
   state (fst (manageBalancerConnection_body all_ok ''HEALTHACK'' node1)) = Active \<and>
   state (fst (manageBalancerConnection_body all_ok ''INVALID name'' node1)) = Active \<and>
   state (fst (manageBalancerConnection_body all_ok ''HELLO'' node1)) = Active \<and>
   snd (manageBalancerConnection_loop all_ok [Inr ''DEREGISTERED'', Inr ''RESUMED''] node1) = ProcessExit"
proof -
  have st: "state node1 = Active" and run: "running node1"
    by (simp_all add: node1_def running_def)
  have a: "manageBalancerConnection_body all_ok ''PAUSED'' node1 = (node1\<lparr>state := Paused\<rparr>, True)"
    using control_directives [of "''PAUSED''" all_ok node1 "[]"] by (simp add: first_token_def)
  have b: "state (fst (manageBalancerConnection_body all_ok ''RESUMED'' (node1\<lparr>state := Paused\<rparr>))) = Active"
    using control_directives [of "''RESUMED''" all_ok "node1\<lparr>state := Paused\<rparr>" "[]"]
    by (simp add: first_token_def)
  have c: "state (fst (manageBalancerConnection_body all_ok ''DEREGISTERED'' node1)) = Deregistering
      \<and> \<not> snd (manageBalancerConnection_body all_ok ''DEREGISTERED'' node1)"
    using control_directives [of "''DEREGISTERED''" all_ok node1 "[]"]
    by (simp add: first_token_def gracefulStop_state)
  have d: "state (fst (manageBalancerConnection_body all_ok [] node1)) = Active"
    using control_directives [of "[]" all_ok node1 "[]"] st by (simp add: first_token_def)
  have e: "state (fst (manageBalancerConnection_body all_ok ''HEALTHACK 200'' node1)) = Active"
    using control_directives [of "''HEALTHACK 200''" all_ok node1 "[]"] st by (simp add: first_token_def)
  have f: "state (fst (manageBalancerConnection_body all_ok ''HEALTHACK'' node1)) = Active"
    using control_directives [of "''HEALTHACK''" all_ok node1 "[]"] st by (simp add: first_token_def)
  have g: "state (fst (manageBalancerConnection_body all_ok ''INVALID name'' node1)) = Active"
    using control_directives [of "''INVALID name''" all_ok node1 "[]"] st by (simp add: first_token_def)
  have h: "state (fst (manageBalancerConnection_body all_ok ''HELLO'' node1)) = Active"
    using control_directives [of "''HELLO''" all_ok node1 "[]"] st by (simp add: first_token_def)
  have i1: "\<not> snd (manageBalancerConnection_body all_ok ''DEREGISTERED'' (emit CommReadLine node1))"
    using control_directives [of "''DEREGISTERED''" all_ok "emit CommReadLine node1" "[]"]
    by (simp add: first_token_def)
  have i: "snd (manageBalancerConnection_loop all_ok [Inr ''DEREGISTERED'', Inr ''RESUMED''] node1)
      = ProcessExit"
    using control_directives [of "''DEREGISTERED''" all_ok node1 "[Inr ''RESUMED'']"] run i1
    by (simp add: first_token_def)
  from a b c d e f g h i show ?thesis by simp
qed

subsection \<open>The relay workers\<close>

lemma To4_length: "To4 ip \<noteq> None \<Longrightarrow> length ip = 4 \<or> length ip = 16"
  by (auto simp: To4_def split: if_splits)

text \<open>
  C10. Before its loop, a worker panics when \<open>To4\<close> of the VIP is \<open>nil\<close>, and the run
  of the worker ends there. When the VIP is IPv4 (\<open>To4\<close> is not \<open>nil\<close>) there is no
  panic: the destination has port 0 and the first four bytes of the VIP as its address,
  and the worker enters its loop with it.
\<close>

theorem worker_requires_ipv4:
  "(To4 (vip c) = None \<longrightarrow>
      handlePackets_setup c = (emit (LogPanic ''vip is not ipv4'') (emit Socket c), None) \<and>
      handlePackets fd sends pool c =
        (emit (LogPanic ''vip is not ipv4'') (emit Socket c), pool, Panicked)) \<and>
   (To4 (vip c) \<noteq> None \<longrightarrow>
      handlePackets_setup c = (emit Socket c, Some \<lparr>Port = 0, Addr = take 4 (vip c)\<rparr>) \<and>
      length (take 4 (vip c)) = 4 \<and>
      handlePackets fd sends pool c =
        handlePackets_loop fd \<lparr>Port = 0, Addr = take 4 (vip c)\<rparr> sends pool (emit Socket c))"
  using To4_length [of "vip c"]
  by (auto simp: handlePackets_setup_def handlePackets_def Let_def)

theorem worker_requires_ipv4_witness:
  "handlePackets_setup node1 =
     (emit Socket node1, Some \<lparr>Port = 0, Addr = [10, 0, 0, 100]\<rparr>) \<and>
   handlePackets_setup node16 =
     (emit Socket node16, Some \<lparr>Port = 0, Addr = [0, 0, 0, 0]\<rparr>) \<and>
   handlePackets_setup (node1\<lparr>vip := [10, 0, 0]\<rparr>) =
     (emit (LogPanic ''vip is not ipv4'') (emit Socket (node1\<lparr>vip := [10, 0, 0]\<rparr>)), None)"
  using worker_requires_ipv4 [of node1] worker_requires_ipv4 [of node16]
    worker_requires_ipv4 [of "node1\<lparr>vip := [10, 0, 0]\<rparr>"]
  by (simp add: node1_def node16_def To4_def isZeros_def)

text \<open>
  One pass of the worker's loop body on a packet whose size lies within its payload:
  the receive, one \<open>Sendto\<close> call with the first \<open>size\<close> bytes, the warning line when
  the send failed, and the \<open>pool.Put\<close> in both cases.
\<close>

lemma handlePackets_iter_Cons:
  assumes "packets c = packet # rest" and "size_ok packet"
  shows "handlePackets_iter fd addr send_res pool c =
     (c\<lparr>packets := rest,
        effects := effects c @ [ChanRecv (ptr packet),
                     Sendto fd (take (nat (size packet)) (payload packet)) addr]
          @ (case send_res of None \<Rightarrow> [] | Some err \<Rightarrow> [LogWarn ''Failed to write packet to local vip''])
          @ [PoolPut (ptr packet)]\<rparr>,
      Pool_Put packet pool, Returned ())"
  using assms
  by (auto simp: handlePackets_iter_def Let_def emit_def size_ok_def split: option.splits)

text \<open>
  C7. The claim has the worker transmit toward the VIP. A VIP held in the 16-byte form
  passes the worker's own \<open>To4\<close> test, with \<open>To4\<close> giving 10.0.0.100 here, but the
  destination is built from \<open>c.vip[:4]\<close>, the four leading zero bytes: the worker
  receives the packet, sends its first \<open>size\<close> bytes to 0.0.0.0 and puts the packet
  back into the pool.
\<close>

theorem relay_destination_mapped_vip:
  "To4 (vip node16) = Some [10, 0, 0, 100] \<and>
   handlePackets 3 [None] \<lparr>idle = [], fresh = 1, bufsize = 4\<rparr> (node16\<lparr>packets := [packet0]\<rparr>) =
     (node16\<lparr>effects := [Socket, ChanRecv 0,
                           Sendto 3 [1, 2, 3] \<lparr>Port = 0, Addr = [0, 0, 0, 0]\<rparr>, PoolPut 0]\<rparr>,
      \<lparr>idle = [packet0], fresh = 1, bufsize = 4\<rparr>, Waiting)"
  by code_simp

subsection \<open>Buffers in the pipeline\<close>

lemma pipeline_run_append: "pipeline_run (xs @ ys) s = pipeline_run ys (pipeline_run xs s)"
  by (induction xs arbitrary: s) simp_all

lemma acquires_simps [simp]:
  "acquires b [] = 0"
  "acquires b (e # es) = (if e = PoolGet b then 1 else 0) + acquires b es"
  "acquires b (es @ fs) = acquires b es + acquires b fs"
  by (simp_all add: acquires_def)

lemma releases_simps [simp]:
  "releases b [] = 0"
  "releases b (e # es) = (if e = PoolPut b then 1 else 0) + releases b es"
  "releases b (es @ fs) = releases b es + releases b fs"
  by (simp_all add: releases_def)

lemma cnt_simps [simp]:
  "cnt b [] = 0"
  "cnt b (p # ps) = (if ptr p = b then 1 else 0) + cnt b ps"
  "cnt b (ps @ qs) = cnt b ps + cnt b qs"
  by (simp_all add: cnt_def)


lemma sum_list_map_update:
  fixes f :: "'a \<Rightarrow> nat"
  shows "w < length ws \<Longrightarrow> sum_list (map f (ws[w := x])) + f (ws ! w) = sum_list (map f ws) + f x"
proof (induction ws arbitrary: w)
  case Nil
  then show ?case by simp
next
  case (Cons a ws)
  show ?case
  proof (cases w)
    case 0
    then show ?thesis by simp
  next
    case (Suc v)
    with Cons.prems have "v < length ws" by simp
    from Cons.IH [OF this] Suc show ?thesis by simp
  qed
qed



text \<open>Changing a worker: the effect on the count of outstanding packets.\<close>

lemma outstanding_worker_update:
  assumes "w < length (workers s)"
  shows "outstanding b (s\<lparr>workers := (workers s)[w := wk']\<rparr>) + cnt b (held_worker (workers s ! w))
       = outstanding b s + cnt b (held_worker wk')"
  using sum_list_map_update [OF assms, of "\<lambda>wk. cnt b (held_worker wk)" wk']
  by (simp add: outstanding_def)










lemma acquires_replicate [simp]: "acquires b (replicate n GoHandlePackets) = 0"
  by (induction n) simp_all

lemma releases_replicate [simp]: "releases b (replicate n GoHandlePackets) = 0"
  by (induction n) simp_all

lemma held_new_worker [simp]: "held_worker new_worker = []"
  by (simp add: held_worker_def new_worker_def)




















text \<open>
  The three statements of a worker from the receive to \<open>pool.Put\<close> make up one pass
  of the loop body as \<open>handlePackets_iter\<close> has it.
\<close>

lemma worker_pass_is_iter:
  assumes wlt: "w < length (workers s)" and recv: "wpc (workers s ! w) = WReceiving"
    and chan: "packets (pclient s) = packet # rest" and live: "\<not> crashed s" and sz: "size_ok packet"
  shows "pclient (pipeline_run [Work w f1 r1, Work w f2 sr, Work w f3 r3] s) =
           fst (handlePackets_iter (wfd (workers s ! w)) (waddr (workers s ! w)) sr (ppool s) (pclient s))"
    and "ppool (pipeline_run [Work w f1 r1, Work w f2 sr, Work w f3 r3] s) =
           fst (snd (handlePackets_iter (wfd (workers s ! w)) (waddr (workers s ! w)) sr (ppool s) (pclient s)))"
  using assms
  by (auto simp: worker_step_def handlePackets_iter_def Let_def size_ok_def emit_def
      split: option.splits)

subsection \<open>A failing read in the capture loop\<close>

lemma reads_made_simps [simp]:
  "reads_made [] = 0"
  "reads_made (e # es) = (case e of ListenerReadFrom p \<Rightarrow> 1 | _ \<Rightarrow> 0) + reads_made es"
  "reads_made (es @ fs) = reads_made es + reads_made fs"
  by (simp_all add: reads_made_def split: event.splits)

lemma worker_step_frame:
  "lpc (worker_step w fd sr s) = lpc s"
  "reads_made (effects (pclient (worker_step w fd sr s))) = reads_made (effects (pclient s))"
  "acquires b (effects (pclient (worker_step w fd sr s))) = acquires b (effects (pclient s))"
  by (auto simp: worker_step_def Let_def handlePackets_setup_def
      split: worker_pc.splits list.splits option.splits)

lemma returned_step:
  assumes "lpc s = LReturned e"
  shows "lpc (pipeline_step a s) = LReturned e"
    and "reads_made (effects (pclient (pipeline_step a s))) = reads_made (effects (pclient s))"
    and "acquires b (effects (pclient (pipeline_step a s))) = acquires b (effects (pclient s))"
  using assms by (cases a; simp add: worker_step_frame listen_step_def)+

lemma returned_run:
  assumes "lpc s = LReturned e"
  shows "lpc (pipeline_run sched s) = LReturned e \<and>
     reads_made (effects (pclient (pipeline_run sched s))) = reads_made (effects (pclient s)) \<and>
     acquires b (effects (pclient (pipeline_run sched s))) = acquires b (effects (pclient s))"
  using assms
proof (induction sched arbitrary: s)
  case Nil
  then show ?case by simp
next
  case (Cons a sched)
  from Cons.IH [OF returned_step(1) [OF Cons.prems, where a = a]]
    returned_step(2) [OF Cons.prems, where a = a]
    returned_step(3) [OF Cons.prems, where a = a and b = b]
  show ?case by simp
qed

text \<open>
  C5, as the code has it. When \<open>listen\<close> is inside \<open>ReadFrom\<close> and the read fails,
  \<open>listen\<close> returns that error to its caller: its only events are the read and the
  deferred \<open>wg.Done\<close>, so it writes no log line and makes no step of the shutdown
  procedure, and the packet it held is dropped. However the run goes on, \<open>listen\<close>
  stays returned with that error, reads no more and acquires no more packets.
\<close>

theorem listen_returns_read_error:
  assumes "lpc (listen mtu_res sched c) = LReading packet"
    and "\<not> crashed (listen mtu_res sched c)"
  shows "listen mtu_res (sched @ [Listen choice (Inl err)]) c =
           (listen mtu_res sched c)
             \<lparr>pclient := emit WgDone (emit (ListenerReadFrom (ptr packet))
                            (pclient (listen mtu_res sched c))),
              lpc := LReturned (Some err),
              dropped := packet # dropped (listen mtu_res sched c)\<rparr> \<and>
         lpc (listen mtu_res (sched @ Listen choice (Inl err) # later) c) = LReturned (Some err) \<and>
         reads_made (effects (pclient (listen mtu_res (sched @ Listen choice (Inl err) # later) c))) =
           Suc (reads_made (effects (pclient (listen mtu_res sched c)))) \<and>
         acquires b (effects (pclient (listen mtu_res (sched @ Listen choice (Inl err) # later) c))) =
           acquires b (effects (pclient (listen mtu_res sched c)))"
proof -
  let ?s = "listen mtu_res sched c"
  let ?s' = "?s\<lparr>pclient := emit WgDone (emit (ListenerReadFrom (ptr packet)) (pclient ?s)),
              lpc := LReturned (Some err), dropped := packet # dropped ?s\<rparr>"
  have step: "pipeline_step (Listen choice (Inl err)) ?s = ?s'"
    using assms by (simp add: listen_step_def)
  have one: "listen mtu_res (sched @ [Listen choice (Inl err)]) c = ?s'"
    using step by (simp add: listen_def pipeline_run_append)
  have later: "listen mtu_res (sched @ Listen choice (Inl err) # later) c = pipeline_run later ?s'"
    using step by (simp add: listen_def pipeline_run_append)
  have ret: "lpc ?s' = LReturned (Some err)" by simp
  from returned_run [OF ret, where sched = later and b = b] one later show ?thesis by simp
qed

theorem listen_returns_read_error_witness:
  "lpc (listen (Inr 4) [Listen None (Inl read_failed), Listen None (Inl read_failed), Listen None (Inr [1])] node1)
     = LReturned (Some read_failed) \<and>
   effects (pclient (listen (Inr 4) [Listen None (Inl read_failed), Listen None (Inl read_failed)] node1))
     = replicate 20 GoHandlePackets @ [PoolGet 0, ListenerReadFrom 0, WgDone]"
proof -
  let ?s = "listen (Inr 4) [Listen None (Inl read_failed)] node1"
  have r: "lpc ?s = LReading \<lparr>ptr = 0, size = 0, payload = [0, 0, 0, 0]\<rparr>" by code_simp
  have live: "\<not> crashed ?s" by code_simp
  have eff: "effects (pclient ?s) = replicate 20 GoHandlePackets @ [PoolGet 0]" by code_simp
  from listen_returns_read_error [OF r live, of None read_failed "[Listen None (Inr [1])]"] eff
  show ?thesis by simp
qed

text \<open>
  C5 as stated fails: on a failing first read \<open>listen\<close> has acquired a packet, made
  the read and returned the error; the process has not exited, nothing was logged and no
  step of the shutdown procedure was made. The control reader, on a failing read, does
  run the shutdown procedure.
\<close>

theorem listen_no_shutdown_counterexample:
  "lpc (listen (Inr 4) [Listen None (Inl read_failed), Listen None (Inl read_failed)] node1)
     = LReturned (Some read_failed) \<and>
   effects (pclient (listen (Inr 4) [Listen None (Inl read_failed), Listen None (Inl read_failed)] node1))
     = replicate 20 GoHandlePackets @ [PoolGet 0, ListenerReadFrom 0, WgDone] \<and>
   exited (pclient (listen (Inr 4) [Listen None (Inl read_failed), Listen None (Inl read_failed)] node1))
     = False \<and>
   list_ex stop_or_log
     (effects (pclient (listen (Inr 4) [Listen None (Inl read_failed), Listen None (Inl read_failed)] node1)))
     = False \<and>
   exited (fst (manageBalancerConnection all_ok [Inl read_failed] node1)) = True"
  by code_simp
subsection \<open>Two goroutines in the shutdown procedure\<close>

lemma exited_emit: "exited (emit e c) = (exited c \<or> (case e of OsExit n \<Rightarrow> True | _ \<Rightarrow> False))"
  by (auto simp: exited_def emit_def)

lemma exited_state [simp]: "exited (c\<lparr>state := st\<rparr>) = exited c"
  by (simp add: exited_def)

lemma name_detachVIP [simp]: "name (fst (detachVIP lo_res del_res c)) = name c"
  by (simp add: detachVIP_def split: sum.splits)

lemma name_recover [simp]: "name (recover_and_log v c) = name c"
  by (simp add: recover_and_log_def split: option.splits)

lemma exited_detachVIP [simp]: "exited (fst (detachVIP lo_res del_res c)) = exited c"
  by (simp add: detachVIP_def exited_emit split: sum.splits)

lemma exited_recover [simp]: "exited (recover_and_log v c) = exited c"
  by (simp add: recover_and_log_def exited_emit split: option.splits)

lemma effects_detachVIP:
  "effects (fst (detachVIP lo_res del_res c)) = effects c @ LinkByName ''lo'' #
     (case lo_res of Inl err \<Rightarrow> [] | Inr lo \<Rightarrow> [AddrDel lo (vipNet c)])"
  by (simp add: detachVIP_def split: sum.splits)

lemma effects_recover:
  "effects (recover_and_log v c) = effects c @ (case v of None \<Rightarrow> [] | Some x \<Rightarrow> [LogError x])"
  by (simp add: recover_and_log_def split: option.splits)

lemma gracefulStop_step_name:
  "gracefulStop_step r pc c = (pc', c') \<Longrightarrow> name c' = name c"
  by (cases pc) (auto split: if_splits)

lemma gracefulStop_step_messages:
  assumes "gracefulStop_step r pc c = (pc', c')"
  shows "count_list (effects c') (CommWriteLine (''DEREGISTER '' @ name c)) + may_write pc'
       \<le> count_list (effects c) (CommWriteLine (''DEREGISTER '' @ name c)) + may_write pc"
  using assms
  by (cases pc) (auto simp: effects_detachVIP effects_recover split: if_splits sum.splits option.splits)

lemma gracefulStop_step_detach:
  assumes "gracefulStop_step r pc c = (pc', c')"
  shows "detach_attempts (effects c') + may_detach pc' \<le> detach_attempts (effects c) + may_detach pc"
  using assms
  by (cases pc) (auto simp: detach_attempts_def effects_detachVIP effects_recover
      split: if_splits sum.splits option.splits)

lemma concurrent_stops_bound:
  assumes "concurrent_stops ra rb sched (pa, pb, c) = (pa', pb', c')"
  shows "name c' = name c \<and>
    count_list (effects c') (CommWriteLine (''DEREGISTER '' @ name c)) + may_write pa' + may_write pb'
      \<le> count_list (effects c) (CommWriteLine (''DEREGISTER '' @ name c)) + may_write pa + may_write pb \<and>
    detach_attempts (effects c') + may_detach pa' + may_detach pb'
      \<le> detach_attempts (effects c) + may_detach pa + may_detach pb"
  using assms
proof (induction sched arbitrary: pa pb c)
  case Nil
  then show ?case by simp
next
  case (Cons first sched)
  show ?case
  proof (cases "exited c")
    case True
    with Cons.prems show ?thesis by simp
  next
    case False
    show ?thesis
    proof (cases first)
      case True
      obtain pa1 c1 where st: "gracefulStop_step ra pa c = (pa1, c1)"
        by (cases "gracefulStop_step ra pa c")
      with Cons.prems \<open>\<not> exited c\<close> True
      have "concurrent_stops ra rb sched (pa1, pb, c1) = (pa', pb', c')" by simp
      from Cons.IH [OF this] gracefulStop_step_name [OF st] gracefulStop_step_messages [OF st]
        gracefulStop_step_detach [OF st]
      show ?thesis by simp
    next
      case False
      obtain pb1 c1 where st: "gracefulStop_step rb pb c = (pb1, c1)"
        by (cases "gracefulStop_step rb pb c")
      with Cons.prems \<open>\<not> exited c\<close> False
      have "concurrent_stops ra rb sched (pa, pb1, c1) = (pa', pb', c')" by simp
      from Cons.IH [OF this] gracefulStop_step_name [OF st] gracefulStop_step_messages [OF st]
        gracefulStop_step_detach [OF st]
      show ?thesis by simp
    qed
  qed
qed

lemma concurrent_stops_exited:
  "exited c \<Longrightarrow> concurrent_stops ra rb sched (pa, pb, c) = (pa, pb, c)"
  by (cases sched) simp_all

lemma first_runs_alone:
  assumes "\<not> exited c"
  shows "concurrent_stops ra rb ([True, True, True, True, True, True, True, True] @ sched)
           (AtCheck, AtCheck, c) = (Finished, AtCheck, gracefulStop ra c)"
proof (cases "state c = Deregistering")
  case True
  with assms show ?thesis
    by (simp add: exited_emit concurrent_stops_exited gracefulStop_def Let_def)
next
  case False
  with assms show ?thesis
    by (simp add: exited_emit concurrent_stops_exited gracefulStop_def Let_def deregister_def)
qed


lemma gracefulStop_counts:
  "deregister_messages c (effects (gracefulStop r c)) =
     deregister_messages c (effects c) + (if state c \<noteq> Deregistering then 1 else 0)"
  "detach_attempts (effects (gracefulStop r c)) = detach_attempts (effects c) + 1"
  by (simp_all add: gracefulStop_effects deregister_messages_def detach_attempts_def
      split: sum.splits option.splits)

text \<open>
  C8, as the code has it. \<open>gracefulStop\<close> has no guard against a second invocation.
  When the first invocation runs to its end before the second takes a step, the result
  is that of one \<open>gracefulStop\<close>: one \<open>DEREGISTER\<close> line (none when the state was
  already \<open>Deregistering\<close>) and one detachment attempt, since the exit of the process
  stops the second invocation. However the two invocations interleave, each writes at
  most one \<open>DEREGISTER\<close> line and makes at most one detachment attempt, so at most two
  of each are made.
\<close>

theorem two_shutdowns:
  assumes "\<not> exited c"
  shows "concurrent_stops ra rb (replicate 8 True @ sched) (AtCheck, AtCheck, c) =
           (Finished, AtCheck, gracefulStop ra c) \<and>
    deregister_messages c (effects (gracefulStop ra c)) =
      deregister_messages c (effects c) + (if state c \<noteq> Deregistering then 1 else 0) \<and>
    detach_attempts (effects (gracefulStop ra c)) = detach_attempts (effects c) + 1 \<and>
    deregister_messages c (effects (snd (snd (concurrent_stops ra rb sched (AtCheck, AtCheck, c)))))
      \<le> deregister_messages c (effects c) + 2 \<and>
    detach_attempts (effects (snd (snd (concurrent_stops ra rb sched (AtCheck, AtCheck, c)))))
      \<le> detach_attempts (effects c) + 2"
proof -
  have eight: "replicate 8 True = [True, True, True, True, True, True, True, True]"
    by (simp add: eval_nat_numeral)
  have alone: "concurrent_stops ra rb (replicate 8 True @ sched) (AtCheck, AtCheck, c) =
           (Finished, AtCheck, gracefulStop ra c)"
    unfolding eight by (rule first_runs_alone [OF assms])
  obtain pa' pb' c' where fin: "concurrent_stops ra rb sched (AtCheck, AtCheck, c) = (pa', pb', c')"
    by (cases "concurrent_stops ra rb sched (AtCheck, AtCheck, c)")
  from concurrent_stops_bound [OF fin]
  have "deregister_messages c (effects c') \<le> deregister_messages c (effects c) + 2"
    and "detach_attempts (effects c') \<le> detach_attempts (effects c) + 2"
    by (simp_all add: deregister_messages_def)
  with alone fin show ?thesis by (simp add: gracefulStop_counts)
qed

theorem two_shutdowns_witness:
  "deregister_messages node1 (effects (snd (snd
      (concurrent_stops all_ok all_ok (replicate 8 True @ racing_schedule) (AtCheck, AtCheck, node1))))) = 1 \<and>
   detach_attempts (effects (snd (snd
      (concurrent_stops all_ok all_ok (replicate 8 True @ racing_schedule) (AtCheck, AtCheck, node1))))) = 1"
proof -
  have hyp: "\<not> exited node1" by (simp add: node1_def exited_def)
  have zero: "deregister_messages node1 (effects node1) = 0" "detach_attempts (effects node1) = 0"
    "state node1 \<noteq> Deregistering"
    by (simp_all add: node1_def deregister_messages_def detach_attempts_def)
  from two_shutdowns [OF hyp, of all_ok all_ok racing_schedule] zero show ?thesis by simp
qed

text \<open>
  C8 as stated fails. When both goroutines test the state before either sets it, both
  write \<open>DEREGISTER\<close>, and both detach when neither has reached the exit: two lines
  and two attempts. When the second starts after the first has detached but not yet
  exited, one line is written and two detachments are attempted.
\<close>

theorem two_shutdowns_counterexample:
  "deregister_messages node1 (effects (snd (snd
      (concurrent_stops all_ok all_ok racing_schedule (AtCheck, AtCheck, node1))))) = 2 \<and>
   detach_attempts (effects (snd (snd
      (concurrent_stops all_ok all_ok racing_schedule (AtCheck, AtCheck, node1))))) = 2 \<and>
   deregister_messages node1 (effects (snd (snd
      (concurrent_stops all_ok all_ok late_second_schedule (AtCheck, AtCheck, node1))))) = 1 \<and>
   detach_attempts (effects (snd (snd
      (concurrent_stops all_ok all_ok late_second_schedule (AtCheck, AtCheck, node1))))) = 2"
  by code_simp


end
